theory Spec2Isabelle
  imports Main "HOL-Library.Word"
begin

section \<open>Values of the runtime\<close>

text \<open>
  The library \<open>src/lib.ts\<close> exists in two variants: the temp-file variant (lines 1-210, with
  the \<open>cookies\<close> option) and the stream-pipe variant (lines 210-422, with \<open>ytdlpArgs\<close> and
  \<open>ffmpegArgs\<close>). Both share \<open>downloadFile\<close> and \<open>ensureBinary\<close>, which differ only in layout.

  A \<open>Buffer\<close> and the content of a file are lists of bytes; a JavaScript \<open>Error\<close> carries its
  message.
\<close>

type_synonym bytes = "8 word list"

datatype error = Error string

text \<open>Template literals print a number in decimal and \<open>null\<close> as the word null.\<close>

definition digit :: "nat \<Rightarrow> char" where
  "digit d = ''0123456789'' ! d"

fun show_nat :: "nat \<Rightarrow> string" where
  "show_nat n = (if n < 10 then [digit n] else show_nat (n div 10) @ [digit (n mod 10)])"

definition show_int :: "int \<Rightarrow> string" where
  "show_int i = (if i < 0 then ''-'' @ show_nat (nat (- i)) else show_nat (nat i))"

definition show_code :: "int option \<Rightarrow> string" where
  "show_code code = (case code of None \<Rightarrow> ''null'' | Some n \<Rightarrow> show_int n)"

text \<open>The two non-ASCII marks of the log messages, as their UTF-8 bytes.\<close>

definition arrow :: string where
  "arrow = [CHR 0xE2, CHR 0x86, CHR 0x92]"

definition warning_sign :: string where
  "warning_sign = [CHR 0xE2, CHR 0x9A, CHR 0xA0, CHR 0xEF, CHR 0xB8, CHR 0x8F]"

text \<open>A string is falsy in a condition when it is undefined or empty.\<close>

definition falsy :: "string option \<Rightarrow> bool" where
  "falsy s = (case s of None \<Rightarrow> True | Some x \<Rightarrow> x = [])"

section \<open>The world the library acts on\<close>

text \<open>
  A file has a content and permission bits. The file system maps paths to files.
  Every call with an outward effect is appended to a log, in program order.
\<close>

record fileobj =
  content :: bytes
  fmode :: nat

type_synonym filesystem = "string \<rightharpoonup> fileobj"

datatype logarg = Str string | Text bytes | Code "int option"

datatype effect =
    ExecFile string "string list"
  | Spawn string "string list"
  | Mkdir string
  | CreateWriteStream string nat
  | HttpsGet string
  | Pipe string
  | WriteFile string
  | Unlink string
  | ConsoleLog string
  | ConsoleError "logarg list"

record world =
  fs :: filesystem
  effects :: "effect list"

text \<open>
  The answer of \<open>https.get\<close>: either the request emits \<open>error\<close> before any response, or a
  response arrives with a status code and a body.
\<close>

datatype http_result = ReqError error | Response nat bytes

text \<open>
  What the code reads from its process and from library functions outside this repository:
  \<open>process.platform\<close>, \<open>process.arch\<close>, \<open>process.cwd()\<close>, \<open>os.tmpdir()\<close>, \<open>Date.now()\<close>,
  \<open>path.join\<close>, the promisified \<open>execFile\<close> (the error it rejects with, if any, and the file
  system the child process leaves behind), \<open>https.get\<close> and \<open>glob.sync\<close>.
  Calls of the operating system that the source has no branch for (\<open>mkdirSync\<close>, opening the
  write stream, \<open>spawn\<close>) are taken on a system where they succeed.
\<close>

record env =
  platform :: string
  arch :: string
  cwd :: string
  tmpdir :: string
  now :: nat
  join :: "string list \<Rightarrow> string"
  execFile :: "string \<Rightarrow> string list \<Rightarrow> filesystem \<Rightarrow> error option \<times> filesystem"
  https_get :: "string \<Rightarrow> http_result"
  glob_sync :: "filesystem \<Rightarrow> string \<Rightarrow> string list"

definition emit :: "effect \<Rightarrow> world \<Rightarrow> world" where
  "emit e w = w\<lparr>effects := effects w @ [e]\<rparr>"

definition existsSync :: "world \<Rightarrow> string \<Rightarrow> bool" where
  "existsSync w p = (fs w p \<noteq> None)"

text \<open>\<open>createWriteStream(dest, { mode: 0o755 })\<close>: flag \<open>w\<close> creates the file with the mode
  asked for (0o755 is 493; the process umask is taken to clear none of its bits) or truncates
  the one that is there.\<close>

definition createWriteStream :: "string \<Rightarrow> nat \<Rightarrow> world \<Rightarrow> world" where
  "createWriteStream dest m w =
     emit (CreateWriteStream dest m)
       (w\<lparr>fs := (fs w)(dest \<mapsto>
           (case fs w dest of
              None \<Rightarrow> \<lparr>content = [], fmode = m\<rparr>
            | Some f \<Rightarrow> f\<lparr>content := []\<rparr>))\<rparr>)"

text \<open>\<open>response.pipe(file)\<close> up to \<open>finish\<close>: the body becomes the content of the file.\<close>

definition pipe_to :: "string \<Rightarrow> bytes \<Rightarrow> world \<Rightarrow> world" where
  "pipe_to dest body w =
     emit (Pipe dest)
       (w\<lparr>fs := (fs w)(dest \<mapsto>
           (case fs w dest of
              None \<Rightarrow> \<lparr>content = body, fmode = 493\<rparr>
            | Some f \<Rightarrow> f\<lparr>content := content f @ body\<rparr>))\<rparr>)"

section \<open>Remote fetcher: \<open>downloadFile\<close>\<close>

definition downloadFile :: "env \<Rightarrow> world \<Rightarrow> string \<Rightarrow> string \<Rightarrow> (error + unit) \<times> world" where
  "downloadFile env w url dest =
     (let w1 = emit (Mkdir (join env [cwd env, ''bin''])) w;
          w2 = createWriteStream dest 493 w1;
          w3 = emit (HttpsGet url) w2
      in case https_get env url of
           ReqError err \<Rightarrow> (Inl err, w3)
         | Response statusCode body \<Rightarrow>
             if statusCode \<noteq> 200
             then (Inl (Error (''Download failed: '' @ show_nat statusCode)), w3)
             else (Inr (), pipe_to dest body w3))"

section \<open>Binary resolver: \<open>ensureBinary\<close>\<close>

definition ytdlp_url :: "bool \<Rightarrow> string" where
  "ytdlp_url isWin =
     (if isWin
      then ''https://github.com/yt-dlp/yt-dlp/releases/latest/download/yt-dlp.exe''
      else ''https://github.com/yt-dlp/yt-dlp/releases/latest/download/yt-dlp'')"

definition ffmpeg_url :: "string \<Rightarrow> string \<Rightarrow> string" where
  "ffmpeg_url plat ar =
     (if plat = ''win32''
      then ''https://github.com/eugeneware/ffmpeg-static/releases/latest/download/win32-x64.exe''
      else if plat = ''darwin''
      then (if ar = ''arm64''
            then ''https://github.com/eugeneware/ffmpeg-static/releases/latest/download/darwin-arm64''
            else ''https://github.com/eugeneware/ffmpeg-static/releases/latest/download/darwin-x64'')
      else (if ar = ''arm64''
            then ''https://github.com/eugeneware/ffmpeg-static/releases/latest/download/linux-arm64''
            else ''https://github.com/eugeneware/ffmpeg-static/releases/latest/download/linux-x64''))"

text \<open>The tail of both download branches: \<open>await downloadFile(url, local); return local\<close>.\<close>

definition fetch_binary :: "env \<Rightarrow> world \<Rightarrow> string \<Rightarrow> string \<Rightarrow> (error + string) \<times> world" where
  "fetch_binary env w url local =
     (case downloadFile env w url local of
        (Inl err, w') \<Rightarrow> (Inl err, w')
      | (Inr _, w') \<Rightarrow> (Inr local, w'))"

definition ensureBinary :: "env \<Rightarrow> world \<Rightarrow> string \<Rightarrow> (error + string) \<times> world" where
  "ensureBinary env w name =
     (let isWin = (platform env = ''win32'');
          exe = (if isWin then name @ ''.exe'' else name);
          whichCmd = (if isWin then ''where'' else ''which'');
          ran = execFile env whichCmd [exe] (fs w);
          w1 = emit (ExecFile whichCmd [exe]) (w\<lparr>fs := snd ran\<rparr>)
      in case fst ran of
           None \<Rightarrow> (Inr exe, w1)
         | Some _ \<Rightarrow>
             (let local = join env [cwd env, ''bin'', exe]
              in if existsSync w1 local then (Inr local, w1)
                 else if name = ''yt-dlp''
                 then fetch_binary env
                        (emit (ConsoleLog (''Downloading yt-dlp '' @ arrow @ '' '' @ local)) w1)
                        (ytdlp_url isWin) local
                 else if name = ''ffmpeg''
                 then fetch_binary env
                        (emit (ConsoleLog (''Downloading ffmpeg '' @ arrow @ '' '' @ local)) w1)
                        (ffmpeg_url (platform env) (arch env)) local
                 else (Inl (Error (name @ '' binary not found'')), w1)))"

section \<open>Pipeline orchestrator: \<open>download\<close>, stream-pipe variant\<close>

text \<open>
  An absent field of the options object is \<open>None\<close>. The record has the fields of both
  variants of the interface; each variant reads its own.
\<close>

record DownloadOptions =
  mode :: "string option"
  format :: "string option"
  quality :: "string option"
  "output" :: "string option"
  cookies :: "string option"
  ytdlpArgs :: "string list option"
  ffmpegArgs :: "string list option"

text \<open>The three \<open>const\<close> declarations at the entry of \<open>download\<close> (operator \<open>??\<close>).\<close>

definition download_mode :: "DownloadOptions \<Rightarrow> string" where
  "download_mode options = (case mode options of None \<Rightarrow> ''audio'' | Some m \<Rightarrow> m)"

definition download_format :: "DownloadOptions \<Rightarrow> string" where
  "download_format options =
     (case format options of
        None \<Rightarrow> (if download_mode options = ''audio'' then ''mp3'' else ''mp4'')
      | Some f \<Rightarrow> f)"

definition download_quality :: "DownloadOptions \<Rightarrow> string" where
  "download_quality options =
     (case quality options of
        None \<Rightarrow> (if download_mode options = ''audio'' then ''0'' else ''best'')
      | Some q \<Rightarrow> q)"

text \<open>\<open>if (extra?.length) args.push(...extra)\<close>\<close>

definition push_extra :: "string list \<Rightarrow> string list option \<Rightarrow> string list" where
  "push_extra args extra =
     (case extra of
        None \<Rightarrow> args
      | Some xs \<Rightarrow> (if length xs \<noteq> 0 then args @ xs else args))"

definition build_ytdlpArgs ::
  "string \<Rightarrow> string \<Rightarrow> string \<Rightarrow> string \<Rightarrow> string \<Rightarrow> string list option \<Rightarrow> string list" where
  "build_ytdlpArgs md fmt qual outputPath url extra =
     push_extra
       (((if md = ''audio'' then [''-f'', qual]
          else [''-f'', qual, ''--merge-output-format'', fmt])
         @ [''--quiet'', ''--no-warnings''])
        @ [''-o'', outputPath, url])
       extra"

definition build_ffmpegArgs :: "string \<Rightarrow> string \<Rightarrow> string list option \<Rightarrow> string list" where
  "build_ffmpegArgs md fmt extra =
     push_extra
       (if md = ''audio'' then [''-i'', ''pipe:0'', ''-vn'', ''-f'', fmt, ''pipe:1'']
        else [''-i'', ''pipe:0'', ''-c'', ''copy'', ''-f'', fmt, ''pipe:1''])
       extra"

text \<open>
  After the two processes are spawned the code only reacts to events. The events that have
  a listener: \<open>data\<close> on the transcoder's standard output (listened to in buffer mode only),
  \<open>data\<close> on the downloader's standard error, and \<open>close\<close> of either process with its exit
  code (\<open>null\<close> when a signal ended the process). The processes are black boxes: the order
  and content of their events is an input.
\<close>

datatype event =
    FfmpegStdoutData bytes
  | YtdlpStderrData bytes
  | FfmpegClose "int option"
  | YtdlpClose "int option"

datatype result = Buffer bytes | Void

datatype outcome = Pending | Resolved result | Rejected error

record pipeline =
  chunks :: "bytes list"
  promise :: outcome
  console :: "effect list"

text \<open>\<open>resolve\<close> and \<open>reject\<close> settle a promise once; later calls change nothing.\<close>

definition settle :: "outcome \<Rightarrow> pipeline \<Rightarrow> pipeline" where
  "settle oc p = (if promise p = Pending then p\<lparr>promise := oc\<rparr> else p)"

fun on_event :: "bool \<Rightarrow> pipeline \<Rightarrow> event \<Rightarrow> pipeline" where
  "on_event isBufferMode p (FfmpegStdoutData chunk) =
     (if isBufferMode then p\<lparr>chunks := chunks p @ [chunk]\<rparr> else p)"
| "on_event isBufferMode p (YtdlpStderrData chunk) =
     p\<lparr>console := console p @ [ConsoleError [Str (warning_sign @ '' [yt-dlp]''), Text chunk]]\<rparr>"
| "on_event isBufferMode p (FfmpegClose code) =
     (if code \<noteq> Some 0
      then settle (Rejected (Error (''ffmpeg exited with code '' @ show_code code))) p
      else if isBufferMode then settle (Resolved (Buffer (concat (chunks p)))) p
      else settle (Resolved Void) p)"
| "on_event isBufferMode p (YtdlpClose code) =
     (if code \<noteq> Some 0
      then p\<lparr>console := console p
             @ [ConsoleError [Str (warning_sign @ '' [yt-dlp] exited with code''), Code code]]\<rparr>
      else p)"

definition run_events :: "bool \<Rightarrow> event list \<Rightarrow> pipeline" where
  "run_events isBufferMode evs =
     foldl (on_event isBufferMode) \<lparr>chunks = [], promise = Pending, console = []\<rparr> evs"

text \<open>The executor of the promise that \<open>download\<close> returns.\<close>

definition run_pipeline ::
  "world \<Rightarrow> string \<Rightarrow> string \<Rightarrow> string \<Rightarrow> DownloadOptions \<Rightarrow> event list \<Rightarrow> outcome \<times> world" where
  "run_pipeline w ytDlp ffmpeg url options evs =
     (let isBufferMode = falsy (output options);
          outputPath = (if isBufferMode then ''-'' else the (output options));
          ytArgs = build_ytdlpArgs (download_mode options) (download_format options)
                     (download_quality options) outputPath url (ytdlpArgs options);
          w1 = emit (Spawn ytDlp ytArgs) w;
          ffArgs = build_ffmpegArgs (download_mode options) (download_format options)
                     (ffmpegArgs options);
          w2 = emit (Spawn ffmpeg ffArgs) w1;
          p = run_events isBufferMode evs
      in (promise p, w2\<lparr>effects := effects w2 @ console p\<rparr>))"

definition download ::
  "env \<Rightarrow> world \<Rightarrow> string option \<Rightarrow> DownloadOptions \<Rightarrow> event list \<Rightarrow> outcome \<times> world" where
  "download env w url options evs =
     (if falsy url then (Rejected (Error ''No URL provided for download''), w)
      else case ensureBinary env w ''yt-dlp'' of
             (Inl err, w1) \<Rightarrow> (Rejected err, w1)
           | (Inr ytDlp, w1) \<Rightarrow>
               (case ensureBinary env w1 ''ffmpeg'' of
                  (Inl err, w2) \<Rightarrow> (Rejected err, w2)
                | (Inr ffmpeg, w2) \<Rightarrow> run_pipeline w2 ytDlp ffmpeg (the url) options evs))"

section \<open>Pipeline orchestrator: \<open>download\<close>, temp-file variant\<close>

text \<open>
  \<open>writeFileSync(path, data, "utf8")\<close> creates the file with the default mode 0o666 (438;
  as for \<open>createWriteStream\<close> the process umask is taken to clear none of its bits, under
  the usual umask 0o022 the file gets 0o644) or replaces its content; \<open>unlinkSync\<close> removes
  the entry.
\<close>

definition writeFileSync :: "string \<Rightarrow> string \<Rightarrow> world \<Rightarrow> world" where
  "writeFileSync path data w =
     emit (WriteFile path)
       (w\<lparr>fs := (fs w)(path \<mapsto>
           (case fs w path of
              None \<Rightarrow> \<lparr>content = map of_char data, fmode = 438\<rparr>
            | Some f \<Rightarrow> f\<lparr>content := map of_char data\<rparr>))\<rparr>)"

definition unlinkSync :: "string \<Rightarrow> world \<Rightarrow> world" where
  "unlinkSync path w = emit (Unlink path) (w\<lparr>fs := (fs w)(path := None)\<rparr>)"

text \<open>The block under the comment \<open>Cookies\<close>: it returns the extended argument list.\<close>

definition add_cookies ::
  "env \<Rightarrow> world \<Rightarrow> string list \<Rightarrow> string option \<Rightarrow> string list \<times> world" where
  "add_cookies env w args ck =
     (if falsy ck then (args, w)
      else if existsSync w (the ck) then (args @ [''--cookies'', the ck], w)
      else (let tempFile = join env [tmpdir env,
                              ''easy-dl-cookies-'' @ show_nat (now env) @ ''.txt'']
            in (args @ [''--cookies'', tempFile], writeFileSync tempFile (the ck) w)))"

text \<open>The block under the comment \<open>If returning Buffer\<close>.\<close>

definition read_result :: "env \<Rightarrow> world \<Rightarrow> outcome \<times> world" where
  "read_result env w =
     (case glob_sync env (fs w) (join env [tmpdir env, ''easy-dl-*'']) of
        [] \<Rightarrow> (Rejected (Error ''No output file produced''), w)
      | filePath # _ \<Rightarrow>
          (case fs w filePath of
             None \<Rightarrow> (Rejected (Error (''ENOENT: no such file or directory, open '' @ filePath)), w)
           | Some f \<Rightarrow> (Resolved (Buffer (content f)), unlinkSync filePath w)))"

definition download_tempfile ::
  "env \<Rightarrow> world \<Rightarrow> string \<Rightarrow> DownloadOptions \<Rightarrow> outcome \<times> world" where
  "download_tempfile env w url options =
     (case ensureBinary env w ''yt-dlp'' of
        (Inl err, w1) \<Rightarrow> (Rejected err, w1)
      | (Inr ytDlp, w1) \<Rightarrow>
          (case ensureBinary env w1 ''ffmpeg'' of
             (Inl err, w2) \<Rightarrow> (Rejected err, w2)
           | (Inr ffmpeg, w2) \<Rightarrow>
               (let args0 = (if download_mode options = ''audio''
                             then [''-x'', ''--audio-format'', download_format options,
                                   ''--audio-quality'', download_quality options]
                             else [''-f'', download_quality options,
                                   ''--merge-output-format'', download_format options]);
                    with_cookies = add_cookies env w2 args0 (cookies options);
                    w3 = snd with_cookies;
                    out = (case output options of
                             None \<Rightarrow> join env [tmpdir env, ''easy-dl-%(id)s.%(ext)s'']
                           | Some path \<Rightarrow> path);
                    args = fst with_cookies
                           @ [''--quiet'', ''--no-warnings'', ''--ffmpeg-location'', ffmpeg,
                              ''-o'', out, url];
                    ran = execFile env ytDlp args (fs w3);
                    w4 = emit (ExecFile ytDlp args) (w3\<lparr>fs := snd ran\<rparr>)
                in case fst ran of
                     Some err \<Rightarrow> (Rejected err, w4)
                   | None \<Rightarrow>
                       if falsy (output options) then read_result env w4
                       else (Resolved Void, w4))))"

section \<open>Notions used to state the properties\<close>

text \<open>The exit code carried by the first \<open>close\<close> event of the transcoder, if there is one.\<close>

fun first_close :: "event list \<Rightarrow> int option option" where
  "first_close [] = None"
| "first_close (FfmpegClose code # evs) = Some code"
| "first_close (FfmpegStdoutData chunk # evs) = first_close evs"
| "first_close (YtdlpStderrData chunk # evs) = first_close evs"
| "first_close (YtdlpClose code # evs) = first_close evs"

text \<open>The chunks seen on the transcoder's standard output before its first \<open>close\<close>.\<close>

fun stdout_before_close :: "event list \<Rightarrow> bytes list" where
  "stdout_before_close [] = []"
| "stdout_before_close (FfmpegClose code # evs) = []"
| "stdout_before_close (FfmpegStdoutData chunk # evs) = chunk # stdout_before_close evs"
| "stdout_before_close (YtdlpStderrData chunk # evs) = stdout_before_close evs"
| "stdout_before_close (YtdlpClose code # evs) = stdout_before_close evs"

text \<open>All chunks of the transcoder's standard output, and the trace without the downloader's
  \<open>close\<close> events.\<close>

fun stdout_chunks :: "event list \<Rightarrow> bytes list" where
  "stdout_chunks [] = []"
| "stdout_chunks (FfmpegStdoutData chunk # evs) = chunk # stdout_chunks evs"
| "stdout_chunks (FfmpegClose code # evs) = stdout_chunks evs"
| "stdout_chunks (YtdlpStderrData chunk # evs) = stdout_chunks evs"
| "stdout_chunks (YtdlpClose code # evs) = stdout_chunks evs"

fun without_ytdlp_close :: "event list \<Rightarrow> event list" where
  "without_ytdlp_close [] = []"
| "without_ytdlp_close (YtdlpClose code # evs) = without_ytdlp_close evs"
| "without_ytdlp_close (FfmpegStdoutData chunk # evs) = FfmpegStdoutData chunk # without_ytdlp_close evs"
| "without_ytdlp_close (YtdlpStderrData chunk # evs) = YtdlpStderrData chunk # without_ytdlp_close evs"
| "without_ytdlp_close (FfmpegClose code # evs) = FfmpegClose code # without_ytdlp_close evs"

text \<open>The events that follow the first \<open>close\<close> of the transcoder.\<close>

fun after_close :: "event list \<Rightarrow> event list" where
  "after_close [] = []"
| "after_close (FfmpegClose code # evs) = evs"
| "after_close (FfmpegStdoutData chunk # evs) = after_close evs"
| "after_close (YtdlpStderrData chunk # evs) = after_close evs"
| "after_close (YtdlpClose code # evs) = after_close evs"

text \<open>The names that \<open>ensureBinary\<close> computes first: the executable's file name, the locate
  command and its outcome, the path in the cache, and the URL of the download branch.\<close>

definition exe_of :: "env \<Rightarrow> string \<Rightarrow> string" where
  "exe_of env name = (if platform env = ''win32'' then name @ ''.exe'' else name)"

definition locate_cmd :: "env \<Rightarrow> string" where
  "locate_cmd env = (if platform env = ''win32'' then ''where'' else ''which'')"

definition locate :: "env \<Rightarrow> world \<Rightarrow> string \<Rightarrow> error option \<times> filesystem" where
  "locate env w name = execFile env (locate_cmd env) [exe_of env name] (fs w)"

definition cache_path :: "env \<Rightarrow> string \<Rightarrow> string" where
  "cache_path env name = join env [cwd env, ''bin'', exe_of env name]"

definition provision_url :: "env \<Rightarrow> string \<Rightarrow> string" where
  "provision_url env name =
     (if name = ''yt-dlp'' then ytdlp_url (platform env = ''win32'')
      else ffmpeg_url (platform env) (arch env))"


text \<open>Reading a decimal numeral back: the inverse of \<open>show_nat\<close>.\<close>

definition read_nat :: "string \<Rightarrow> nat" where
  "read_nat s = foldl (\<lambda>a c. 10 * a + (of_char c - 48)) 0 s"

text \<open>A file is executable by its owner when bit 0o100 (64) of its mode is set.\<close>

definition owner_executable :: "fileobj \<Rightarrow> bool" where
  "owner_executable f = odd (fmode f div 64)"

text \<open>An absolute POSIX path starts with a slash.\<close>

definition posix_absolute :: "string \<Rightarrow> bool" where
  "posix_absolute path = (take 1 path = ''/'')"

section \<open>Concrete environments\<close>

text \<open>A join of path segments that are already normal, as \<open>path.join\<close> gives on POSIX.\<close>

fun slash_join :: "string list \<Rightarrow> string" where
  "slash_join [] = ''.''"
| "slash_join [x] = x"
| "slash_join (x # y # ys) = x @ ''/'' @ slash_join (y # ys)"

text \<open>
  A machine with the working directory \<open>/work\<close>: \<open>located\<close> is what the locate command
  rejects with (\<open>None\<close> when it finds the tool), \<open>resp\<close> what the network answers.
\<close>

definition example_env :: "string \<Rightarrow> error option \<Rightarrow> http_result \<Rightarrow> env" where
  "example_env plat located resp =
     \<lparr>platform = plat, arch = ''x64'', cwd = ''/work'', tmpdir = ''/tmp'', now = 1700000000000,
      join = slash_join,
      execFile = (\<lambda>cmd args files. (located, files)),
      https_get = (\<lambda>url. resp),
      glob_sync = (\<lambda>files pattern. [])\<rparr>"

text \<open>A machine with both tools on the search path, on which the downloader exits with
  \<open>failed\<close> (\<open>None\<close> for exit code 0) and touches no file.\<close>

definition tools_env :: "error option \<Rightarrow> env" where
  "tools_env failed =
     \<lparr>platform = ''linux'', arch = ''x64'', cwd = ''/work'', tmpdir = ''/tmp'', now = 1700000000000,
      join = slash_join,
      execFile = (\<lambda>cmd args files. (if cmd = ''which'' then None else failed, files)),
      https_get = (\<lambda>url. ReqError (Error ''getaddrinfo ENOTFOUND github.com'')),
      glob_sync = (\<lambda>files pattern. [])\<rparr>"

definition empty_world :: world where
  "empty_world = \<lparr>fs = Map.empty, effects = []\<rparr>"

text \<open>A cache that holds a file \<open>yt-dlp\<close> with mode 0o644 (420): readable, not executable.\<close>

definition cached_world :: world where
  "cached_world =
     \<lparr>fs = [''/work/bin/yt-dlp'' \<mapsto> \<lparr>content = [35, 33], fmode = 420\<rparr>], effects = []\<rparr>"

definition no_options :: DownloadOptions where
  "no_options =
     \<lparr>mode = None, format = None, quality = None, output = None, cookies = None,
      ytdlpArgs = None, ffmpegArgs = None\<rparr>"

text \<open>A call for video into a file, with one extra argument for each tool.\<close>

definition video_options :: DownloadOptions where
  "video_options =
     \<lparr>mode = Some ''video'', format = None, quality = None, output = Some ''/tmp/out.mp4'',
      cookies = None, ytdlpArgs = Some [''--no-playlist''], ffmpegArgs = Some [''-y'']\<rparr>"

text \<open>A call of the temp-file variant with a raw cookie string and an output path.\<close>

definition cookie_options :: DownloadOptions where
  "cookie_options =
     \<lparr>mode = None, format = None, quality = None, output = Some ''/music/out.mp3'',
      cookies = Some ''SID=abc'', ytdlpArgs = None, ffmpegArgs = None\<rparr>"

section \<open>Properties of the remote fetcher and the binary resolver\<close>

declare show_nat.simps [simp del]

text \<open>The decimal rendering of numbers and exit codes loses nothing.\<close>

lemma digit_value: "d < 10 \<Longrightarrow> (of_char (digit d) :: nat) = 48 + d"
proof -
  assume "d < 10"
  then consider "d = 0" | "d = 1" | "d = 2" | "d = 3" | "d = 4" | "d = 5" | "d = 6" | "d = 7"
    | "d = 8" | "d = 9" by atomize_elim arith
  then show ?thesis
    by cases (simp_all add: digit_def)
qed

lemma read_show_nat: "read_nat (show_nat n) = n"
proof (induction n rule: show_nat.induct)
  case (1 n)
  show ?case
  proof (cases "n < 10")
    case True
    then show ?thesis
      by (simp add: show_nat.simps [of n] read_nat_def digit_value)
  next
    case False
    have "read_nat (show_nat n) = 10 * read_nat (show_nat (n div 10)) + (of_char (digit (n mod 10)) - 48)"
      using False by (simp add: show_nat.simps [of n] read_nat_def)
    also have "\<dots> = 10 * (n div 10) + n mod 10"
      using False by (simp add: "1.IH" digit_value)
    finally show ?thesis by simp
  qed
qed

lemma show_nat_inject: "show_nat n = show_nat m \<Longrightarrow> n = m"
  by (metis read_show_nat)

lemma show_nat_head: "\<exists>c cs. show_nat n = c # cs \<and> (of_char c :: nat) \<ge> 48 \<and> (of_char c :: nat) < 58"
proof (induction n rule: show_nat.induct)
  case (1 n)
  show ?case
  proof (cases "n < 10")
    case True
    then show ?thesis
      by (simp add: show_nat.simps [of n] digit_value)
  next
    case False
    with "1.IH" obtain c cs where "show_nat (n div 10) = c # cs" "(of_char c :: nat) \<ge> 48" "(of_char c :: nat) < 58"
      by blast
    then show ?thesis
      using False by (simp add: show_nat.simps [of n])
  qed
qed

lemma show_int_inject: "show_int i = show_int j \<Longrightarrow> i = j"
proof -
  assume eq: "show_int i = show_int j"
  obtain c cs where c: "show_nat (nat i) = c # cs" "(of_char c :: nat) \<ge> 48"
    using show_nat_head by blast
  obtain d ds where d: "show_nat (nat j) = d # ds" "(of_char d :: nat) \<ge> 48"
    using show_nat_head by blast
  have m: "(of_char CHR ''-'' :: nat) = 45" by simp
  show ?thesis
  proof (cases "i < 0")
    case True
    show ?thesis
    proof (cases "j < 0")
      case True
      with \<open>i < 0\<close> eq have "show_nat (nat (- i)) = show_nat (nat (- j))"
        by (simp add: show_int_def)
      then have "nat (- i) = nat (- j)" by (rule show_nat_inject)
      with True \<open>i < 0\<close> show ?thesis by simp
    next
      case False
      with \<open>i < 0\<close> eq d m show ?thesis
        by (auto simp: show_int_def)
    qed
  next
    case False
    show ?thesis
    proof (cases "j < 0")
      case True
      with \<open>\<not> i < 0\<close> eq c m show ?thesis
        by (auto simp: show_int_def)
    next
      case False
      with \<open>\<not> i < 0\<close> eq have "show_nat (nat i) = show_nat (nat j)"
        by (simp add: show_int_def)
      then have "nat i = nat j" by (rule show_nat_inject)
      with False \<open>\<not> i < 0\<close> show ?thesis by simp
    qed
  qed
qed

lemma show_int_not_null: "show_int i \<noteq> ''null''"
proof -
  obtain c cs where c: "show_nat (nat i) = c # cs" "(of_char c :: nat) < 58"
    using show_nat_head by blast
  have n: "(of_char CHR ''n'' :: nat) = 110" by simp
  show ?thesis
    using c n by (auto simp: show_int_def)
qed

lemma show_code_inject: "show_code c = show_code d \<Longrightarrow> c = d"
  using show_int_not_null show_int_inject
  by (cases c; cases d) (auto simp: show_code_def dest: sym)


lemma downloadFile_effects:
  "effects (snd (downloadFile env w url dest)) =
     effects w @ [Mkdir (join env [cwd env, ''bin'']), CreateWriteStream dest 493, HttpsGet url]
     @ (case https_get env url of
          ReqError err \<Rightarrow> []
        | Response statusCode body \<Rightarrow> if statusCode \<noteq> 200 then [] else [Pipe dest])"
  by (simp add: downloadFile_def Let_def emit_def createWriteStream_def pipe_to_def split: http_result.splits)

lemma downloadFile_result:
  "fst (downloadFile env w url dest) =
     (case https_get env url of
        ReqError err \<Rightarrow> Inl err
      | Response statusCode body \<Rightarrow>
          if statusCode \<noteq> 200 then Inl (Error (''Download failed: '' @ show_nat statusCode))
          else Inr ())"
  by (simp add: downloadFile_def Let_def split: http_result.splits)

lemma downloadFile_fs:
  "fs (snd (downloadFile env w url dest)) =
     (fs w)(dest \<mapsto>
       (case https_get env url of
          ReqError err \<Rightarrow> (case fs w dest of None \<Rightarrow> \<lparr>content = [], fmode = 493\<rparr> | Some f \<Rightarrow> f\<lparr>content := []\<rparr>)
        | Response statusCode body \<Rightarrow>
            (case fs w dest of None \<Rightarrow> \<lparr>content = (if statusCode \<noteq> 200 then [] else body), fmode = 493\<rparr>
                | Some f \<Rightarrow> f\<lparr>content := (if statusCode \<noteq> 200 then [] else body)\<rparr>)))"
  by (simp add: downloadFile_def Let_def emit_def createWriteStream_def pipe_to_def split: http_result.splits option.splits)

lemma fetch_binary_result:
  "fst (fetch_binary env w url local) =
     (case https_get env url of
        ReqError err \<Rightarrow> Inl err
      | Response statusCode body \<Rightarrow>
          if statusCode \<noteq> 200 then Inl (Error (''Download failed: '' @ show_nat statusCode))
          else Inr local)"
  using downloadFile_result [of env w url local]
  by (cases "downloadFile env w url local") (auto simp: fetch_binary_def split: sum.splits http_result.splits)

lemma fetch_binary_world:
  "snd (fetch_binary env w url local) = snd (downloadFile env w url local)"
  by (cases "downloadFile env w url local") (auto simp: fetch_binary_def split: sum.splits)

lemma ensureBinary_located:
  assumes "fst (locate env w name) = None"
  shows "ensureBinary env w name =
           (Inr (exe_of env name),
            w\<lparr>fs := snd (locate env w name),
              effects := effects w @ [ExecFile (locate_cmd env) [exe_of env name]]\<rparr>)"
proof (cases "platform env = ''win32''")
  case True
  with assms show ?thesis
    by (simp add: ensureBinary_def Let_def emit_def locate_def locate_cmd_def exe_of_def)
next
  case False
  with assms show ?thesis
    by (simp add: ensureBinary_def Let_def emit_def locate_def locate_cmd_def exe_of_def)
qed


lemma ensureBinary_cached:
  assumes "fst (locate env w name) \<noteq> None"
    and "snd (locate env w name) (cache_path env name) \<noteq> None"
  shows "ensureBinary env w name =
           (Inr (cache_path env name),
            w\<lparr>fs := snd (locate env w name),
              effects := effects w @ [ExecFile (locate_cmd env) [exe_of env name]]\<rparr>)"
proof (cases "platform env = ''win32''")
  case True
  with assms show ?thesis
    by (clarsimp simp: ensureBinary_def Let_def emit_def locate_def locate_cmd_def exe_of_def
        cache_path_def existsSync_def)
next
  case False
  with assms show ?thesis
    by (clarsimp simp: ensureBinary_def Let_def emit_def locate_def locate_cmd_def exe_of_def
        cache_path_def existsSync_def)
qed

lemma ensureBinary_missing:
  assumes "name = ''yt-dlp'' \<or> name = ''ffmpeg''"
    and "fst (locate env w name) \<noteq> None"
    and "snd (locate env w name) (cache_path env name) = None"
  shows "ensureBinary env w name =
           fetch_binary env
             (w\<lparr>fs := snd (locate env w name),
                effects := effects w @ [ExecFile (locate_cmd env) [exe_of env name],
                 ConsoleLog (''Downloading '' @ name @ '' '' @ arrow @ '' '' @ cache_path env name)]\<rparr>)
             (provision_url env name) (cache_path env name)"
proof (cases "platform env = ''win32''")
  case True
  from assms(1) show ?thesis
  proof
    assume "name = ''yt-dlp''"
    with True assms(2,3) show ?thesis
      by (clarsimp simp: ensureBinary_def Let_def emit_def locate_def locate_cmd_def exe_of_def
          cache_path_def existsSync_def provision_url_def)
  next
    assume "name = ''ffmpeg''"
    with True assms(2,3) show ?thesis
      by (clarsimp simp: ensureBinary_def Let_def emit_def locate_def locate_cmd_def exe_of_def
          cache_path_def existsSync_def provision_url_def)
  qed
next
  case False
  from assms(1) show ?thesis
  proof
    assume "name = ''yt-dlp''"
    with False assms(2,3) show ?thesis
      by (clarsimp simp: ensureBinary_def Let_def emit_def locate_def locate_cmd_def exe_of_def
          cache_path_def existsSync_def provision_url_def)
  next
    assume "name = ''ffmpeg''"
    with False assms(2,3) show ?thesis
      by (clarsimp simp: ensureBinary_def Let_def emit_def locate_def locate_cmd_def exe_of_def
          cache_path_def existsSync_def provision_url_def)
  qed
qed



lemma example_locate:
  "locate (example_env plat located resp) w name = (located, fs w)"
  by (simp add: locate_def example_env_def)

lemma example_cache_path_linux:
  "cache_path (example_env ''linux'' located resp) ''yt-dlp'' = ''/work/bin/yt-dlp''"
  "cache_path (example_env ''linux'' located resp) ''ffmpeg'' = ''/work/bin/ffmpeg''"
  by (simp_all add: cache_path_def exe_of_def example_env_def)

text \<open>
  Whatever the network answers, the destination exists once \<open>downloadFile\<close> has run: the
  write stream is opened before the request is made. After a failed fetch an empty file is
  left in the cache, and a later resolution finds it there.
\<close>

lemma downloadFile_leaves_file:
  "existsSync (snd (downloadFile env w url dest)) dest"
  by (simp add: existsSync_def downloadFile_fs)

text \<open>The table of download URLs, row by row.\<close>

lemma provision_url_table:
  "provision_url (env\<lparr>platform := ''linux'', arch := ''x64''\<rparr>) ''ffmpeg''
     = ''https://github.com/eugeneware/ffmpeg-static/releases/latest/download/linux-x64''"
  "provision_url (env\<lparr>platform := ''linux'', arch := ''arm64''\<rparr>) ''ffmpeg''
     = ''https://github.com/eugeneware/ffmpeg-static/releases/latest/download/linux-arm64''"
  "provision_url (env\<lparr>platform := ''darwin'', arch := ''x64''\<rparr>) ''ffmpeg''
     = ''https://github.com/eugeneware/ffmpeg-static/releases/latest/download/darwin-x64''"
  "provision_url (env\<lparr>platform := ''darwin'', arch := ''arm64''\<rparr>) ''ffmpeg''
     = ''https://github.com/eugeneware/ffmpeg-static/releases/latest/download/darwin-arm64''"
  "provision_url (env\<lparr>platform := ''win32''\<rparr>) ''ffmpeg''
     = ''https://github.com/eugeneware/ffmpeg-static/releases/latest/download/win32-x64.exe''"
  "provision_url (env\<lparr>platform := ''win32''\<rparr>) ''yt-dlp''
     = ''https://github.com/yt-dlp/yt-dlp/releases/latest/download/yt-dlp.exe''"
  "provision_url (env\<lparr>platform := ''linux''\<rparr>) ''yt-dlp''
     = ''https://github.com/yt-dlp/yt-dlp/releases/latest/download/yt-dlp''"
  by (simp_all add: provision_url_def ffmpeg_url_def ytdlp_url_def)

text \<open>
  Claim C7. A response of \<open>downloadFile\<close> with a status other than 200 fails with the message
  \<open>Download failed: <status>\<close>, and nothing of the body reaches the destination: the file
  opened there stays empty and nothing is piped. An error of the request itself is passed on
  as it is. In every case the cache directory is made before the destination is opened.
\<close>

theorem downloadFile_contract:
  "(\<forall>st body. https_get env url = Response st body \<and> st \<noteq> 200 \<longrightarrow>
      fst (downloadFile env w url dest) = Inl (Error (''Download failed: '' @ show_nat st))
      \<and> (\<exists>f. fs (snd (downloadFile env w url dest)) dest = Some f \<and> content f = [])
      \<and> effects (snd (downloadFile env w url dest)) =
          effects w @ [Mkdir (join env [cwd env, ''bin'']), CreateWriteStream dest 493, HttpsGet url])
   \<and> (\<forall>err. https_get env url = ReqError err \<longrightarrow> fst (downloadFile env w url dest) = Inl err)
   \<and> (\<exists>rest. effects (snd (downloadFile env w url dest)) =
          effects w @ Mkdir (join env [cwd env, ''bin'']) # CreateWriteStream dest 493 # rest)"
proof (intro conjI allI impI)
  fix st body
  assume h: "https_get env url = Response st body \<and> st \<noteq> 200"
  then show "fst (downloadFile env w url dest) = Inl (Error (''Download failed: '' @ show_nat st))"
    by (simp add: downloadFile_result)
  from h show "\<exists>f. fs (snd (downloadFile env w url dest)) dest = Some f \<and> content f = []"
    by (simp add: downloadFile_fs split: option.splits)
  from h show "effects (snd (downloadFile env w url dest)) =
      effects w @ [Mkdir (join env [cwd env, ''bin'']), CreateWriteStream dest 493, HttpsGet url]"
    by (simp add: downloadFile_effects)
next
  fix err
  assume "https_get env url = ReqError err"
  then show "fst (downloadFile env w url dest) = Inl err"
    by (simp add: downloadFile_result)
next
  show "\<exists>rest. effects (snd (downloadFile env w url dest)) =
          effects w @ Mkdir (join env [cwd env, ''bin'']) # CreateWriteStream dest 493 # rest"
    by (simp add: downloadFile_effects)
qed

theorem downloadFile_contract_witness:
  "https_get (example_env ''linux'' None (Response 404 [1, 2])) ''https://host/tool''
     = Response 404 [1, 2]
   \<and> (404::nat) \<noteq> 200
   \<and> fst (downloadFile (example_env ''linux'' None (Response 404 [1, 2])) empty_world
            ''https://host/tool'' ''/work/bin/tool'')
       = Inl (Error ''Download failed: 404'')
   \<and> https_get (example_env ''linux'' None (ReqError (Error ''ECONNRESET''))) ''https://host/tool''
       = ReqError (Error ''ECONNRESET'')
   \<and> fst (downloadFile (example_env ''linux'' None (ReqError (Error ''ECONNRESET''))) empty_world
            ''https://host/tool'' ''/work/bin/tool'')
       = Inl (Error ''ECONNRESET'')"
proof -
  have a: "https_get (example_env ''linux'' None (Response 404 [1, 2])) ''https://host/tool''
             = Response 404 [1, 2]"
    by (simp add: example_env_def)
  have b: "https_get (example_env ''linux'' None (ReqError (Error ''ECONNRESET'')))
             ''https://host/tool'' = ReqError (Error ''ECONNRESET'')"
    by (simp add: example_env_def)
  have s: "show_nat 404 = ''404''"
    by (simp add: show_nat.simps digit_def)
  show ?thesis
    using a b s
      downloadFile_contract [of "example_env ''linux'' None (Response 404 [1, 2])"
        "''https://host/tool''" empty_world "''/work/bin/tool''"]
      downloadFile_contract [of "example_env ''linux'' None (ReqError (Error ''ECONNRESET''))"
        "''https://host/tool''" empty_world "''/work/bin/tool''"]
    by simp
qed





section \<open>Properties of the pipeline orchestrator\<close>

lemma promise_on_event:
  "promise (foldl (on_event b) p evs) =
     (if promise p \<noteq> Pending then promise p
      else case first_close evs of
             None \<Rightarrow> Pending
           | Some code \<Rightarrow>
               if code \<noteq> Some 0
               then Rejected (Error (''ffmpeg exited with code '' @ show_code code))
               else if b then Resolved (Buffer (concat (chunks p @ stdout_before_close evs)))
               else Resolved Void)"
proof (induction evs arbitrary: p)
  case Nil
  then show ?case by simp
next
  case (Cons e evs)
  show ?case
    by (cases e) (auto simp: Cons.IH settle_def split: option.splits)
qed

lemma promise_run_events:
  "promise (run_events b evs) =
     (case first_close evs of
        None \<Rightarrow> Pending
      | Some code \<Rightarrow>
          if code \<noteq> Some 0
          then Rejected (Error (''ffmpeg exited with code '' @ show_code code))
          else if b then Resolved (Buffer (concat (stdout_before_close evs)))
          else Resolved Void)"
  by (simp add: run_events_def promise_on_event split: option.splits)

lemma first_close_without_ytdlp_close:
  "first_close (without_ytdlp_close evs) = first_close evs"
  by (induction evs rule: without_ytdlp_close.induct) simp_all

lemma stdout_before_close_without_ytdlp_close:
  "stdout_before_close (without_ytdlp_close evs) = stdout_before_close evs"
  by (induction evs rule: without_ytdlp_close.induct) simp_all

lemma stdout_chunks_split:
  "stdout_chunks evs = stdout_before_close evs @ stdout_chunks (after_close evs)"
  by (induction evs rule: after_close.induct) simp_all

lemma console_grows:
  "set (console p) \<subseteq> set (console (foldl (on_event b) p evs))"
proof (induction evs arbitrary: p)
  case Nil
  then show ?case by simp
next
  case (Cons e evs)
  have "set (console p) \<subseteq> set (console (on_event b p e))"
    by (cases e) (auto simp: settle_def)
  also have "\<dots> \<subseteq> set (console (foldl (on_event b) (on_event b p e) evs))"
    by (rule Cons.IH)
  finally show ?case by simp
qed

lemma ytdlp_exit_logged:
  assumes "YtdlpClose code \<in> set evs" and "code \<noteq> Some 0"
  shows "ConsoleError [Str (warning_sign @ '' [yt-dlp] exited with code''), Code code]
           \<in> set (console (foldl (on_event b) p evs))"
  using assms
proof (induction evs arbitrary: p)
  case Nil
  then show ?case by simp
next
  case (Cons e evs)
  show ?case
  proof (cases "e = YtdlpClose code")
    case True
    have "ConsoleError [Str (warning_sign @ '' [yt-dlp] exited with code''), Code code]
            \<in> set (console (on_event b p e))"
      using True Cons.prems(2) by simp
    then show ?thesis
      using console_grows [of "on_event b p e" b evs] by auto
  next
    case False
    with Cons.prems have "YtdlpClose code \<in> set evs" by simp
    then show ?thesis using Cons.IH Cons.prems(2) by simp
  qed
qed

lemma fst_run_pipeline:
  "fst (run_pipeline w y f u options evs) = promise (run_events (falsy (output options)) evs)"
  by (simp add: run_pipeline_def Let_def)

lemma effects_run_pipeline:
  "effects (snd (run_pipeline w y f u options evs)) =
     effects w
     @ [Spawn y (build_ytdlpArgs (download_mode options) (download_format options)
                   (download_quality options)
                   (if falsy (output options) then ''-'' else the (output options)) u
                   (ytdlpArgs options)),
        Spawn f (build_ffmpegArgs (download_mode options) (download_format options)
                   (ffmpegArgs options))]
     @ console (run_events (falsy (output options)) evs)"
  by (simp add: run_pipeline_def Let_def emit_def)

lemma download_spawned:
  assumes "\<not> falsy url"
    and "ensureBinary env w ''yt-dlp'' = (Inr y, w1)"
    and "ensureBinary env w1 ''ffmpeg'' = (Inr f, w2)"
  shows "download env w url options evs = run_pipeline w2 y f (the url) options evs"
  using assms by (simp add: download_def)

lemma download_resolved_only_by_pipeline:
  assumes "fst (download env w url options evs) = Resolved r"
  shows "promise (run_events (falsy (output options)) evs) = Resolved r"
  using assms
  by (auto simp: download_def fst_run_pipeline split: if_splits prod.splits sum.splits)

lemma push_extra_append:
  "push_extra args extra = args @ (case extra of None \<Rightarrow> [] | Some xs \<Rightarrow> xs)"
  by (simp add: push_extra_def split: option.splits)

lemma download_effects:
  assumes "\<not> falsy url"
    and "ensureBinary env w ''yt-dlp'' = (Inr y, w1)"
    and "ensureBinary env w1 ''ffmpeg'' = (Inr f, w2)"
  shows "effects (snd (download env w url options evs))
           = effects w2
             @ [Spawn y (build_ytdlpArgs (download_mode options) (download_format options)
                  (download_quality options)
                  (if falsy (output options) then ''-'' else the (output options)) (the url)
                  (ytdlpArgs options)),
                Spawn f (build_ffmpegArgs (download_mode options) (download_format options)
                  (ffmpegArgs options))]
             @ console (run_events (falsy (output options)) evs)"
  by (simp add: download_spawned [OF assms] effects_run_pipeline)

lemma download_ignores_ytdlp_close:
  "fst (download env w url options (without_ytdlp_close evs))
     = fst (download env w url options evs)"
  by (simp add: download_def fst_run_pipeline promise_run_events
      first_close_without_ytdlp_close stdout_before_close_without_ytdlp_close
      split: prod.splits sum.splits option.splits)

lemma example_tools_found:
  "ensureBinary (example_env ''linux'' None resp) w name
     = (Inr name, w\<lparr>effects := effects w @ [ExecFile ''which'' [name]]\<rparr>)"
proof -
  have l: "locate (example_env ''linux'' None resp) w name = (None, fs w)"
    by (rule example_locate)
  have e: "exe_of (example_env ''linux'' None resp) name = name"
    by (simp add: exe_of_def example_env_def)
  have c: "locate_cmd (example_env ''linux'' None resp) = ''which''"
    by (simp add: locate_cmd_def example_env_def)
  have "fst (locate (example_env ''linux'' None resp) w name) = None"
    by (simp add: l)
  from ensureBinary_located [OF this] show ?thesis
    by (simp add: l e c)
qed

lemma example_spawn:
  "\<not> falsy (Some ''https://example/video'')"
  "ensureBinary (example_env ''linux'' None resp) empty_world ''yt-dlp''
     = (Inr ''yt-dlp'', \<lparr>fs = Map.empty, effects = [ExecFile ''which'' [''yt-dlp'']]\<rparr>)"
  "ensureBinary (example_env ''linux'' None resp)
       \<lparr>fs = Map.empty, effects = [ExecFile ''which'' [''yt-dlp'']]\<rparr> ''ffmpeg''
     = (Inr ''ffmpeg'',
        \<lparr>fs = Map.empty,
         effects = [ExecFile ''which'' [''yt-dlp''], ExecFile ''which'' [''ffmpeg'']]\<rparr>)"
  by (simp_all add: falsy_def example_tools_found empty_world_def)

lemma example_download_outcome:
  "fst (download (example_env ''linux'' None resp) empty_world
          (Some ''https://example/video'') options evs)
     = promise (run_events (falsy (output options)) evs)"
  by (simp add: download_spawned [OF example_spawn] fst_run_pipeline)

text \<open>
  Claim C1. \<open>download\<close> succeeds only if the first \<open>close\<close> of the transcoder carries exit
  code 0, and once both processes are spawned it succeeds exactly then. Any other code (or
  \<open>null\<close>) rejects with \<open>ffmpeg exited with code <N>\<close>, and different codes give
  different messages; without a \<open>close\<close> of the transcoder the promise stays pending. The
  \<open>close\<close> events of the downloader do not change the outcome: removing them from the trace
  gives the same outcome. A non-zero exit code of the downloader is written to the error
  console.
\<close>

theorem download_succeeds_iff_ffmpeg_exits_0:
  "((\<exists>r. fst (download env w url options evs) = Resolved r)
      \<longrightarrow> first_close evs = Some (Some 0))
   \<and> (\<not> falsy url
        \<and> ensureBinary env w ''yt-dlp'' = (Inr y, w1)
        \<and> ensureBinary env w1 ''ffmpeg'' = (Inr f, w2) \<longrightarrow>
       (first_close evs = Some (Some 0)
          \<longrightarrow> (\<exists>r. fst (download env w url options evs) = Resolved r))
       \<and> (\<forall>code. first_close evs = Some code \<and> code \<noteq> Some 0 \<longrightarrow>
            fst (download env w url options evs)
              = Rejected (Error (''ffmpeg exited with code '' @ show_code code)))
       \<and> (first_close evs = None \<longrightarrow> fst (download env w url options evs) = Pending)
       \<and> (\<forall>code. YtdlpClose code \<in> set evs \<and> code \<noteq> Some 0 \<longrightarrow>
            ConsoleError [Str (warning_sign @ '' [yt-dlp] exited with code''), Code code]
              \<in> set (effects (snd (download env w url options evs)))))
   \<and> fst (download env w url options (without_ytdlp_close evs))
       = fst (download env w url options evs)
   \<and> (\<forall>c d. show_code c = show_code d \<longrightarrow> c = d)"
proof (intro conjI impI allI)
  assume "\<exists>r. fst (download env w url options evs) = Resolved r"
  then obtain r where "fst (download env w url options evs) = Resolved r" ..
  then have "promise (run_events (falsy (output options)) evs) = Resolved r"
    by (rule download_resolved_only_by_pipeline)
  then show "first_close evs = Some (Some 0)"
    by (auto simp: promise_run_events split: option.splits if_splits)
next
  assume sp: "\<not> falsy url
        \<and> ensureBinary env w ''yt-dlp'' = (Inr y, w1)
        \<and> ensureBinary env w1 ''ffmpeg'' = (Inr f, w2)"
  then have run: "download env w url options evs = run_pipeline w2 y f (the url) options evs"
    by (simp add: download_spawned)
  {
    assume "first_close evs = Some (Some 0)"
    then show "\<exists>r. fst (download env w url options evs) = Resolved r"
      by (simp add: run fst_run_pipeline promise_run_events)
  next
    fix code
    assume "first_close evs = Some code \<and> code \<noteq> Some 0"
    then show "fst (download env w url options evs)
              = Rejected (Error (''ffmpeg exited with code '' @ show_code code))"
      by (simp add: run fst_run_pipeline promise_run_events)
  next
    assume "first_close evs = None"
    then show "fst (download env w url options evs) = Pending"
      by (simp add: run fst_run_pipeline promise_run_events)
  next
    fix code
    assume "YtdlpClose code \<in> set evs \<and> code \<noteq> Some 0"
    then show "ConsoleError [Str (warning_sign @ '' [yt-dlp] exited with code''), Code code]
              \<in> set (effects (snd (download env w url options evs)))"
      by (simp add: run effects_run_pipeline run_events_def ytdlp_exit_logged)
  }
next
  show "fst (download env w url options (without_ytdlp_close evs))
       = fst (download env w url options evs)"
    by (rule download_ignores_ytdlp_close)
next
  fix c d
  assume "show_code c = show_code d"
  then show "c = d" by (rule show_code_inject)
qed

theorem download_succeeds_iff_ffmpeg_exits_0_witness:
  "\<not> falsy (Some ''https://example/video'')
   \<and> ensureBinary (example_env ''linux'' None (Response 200 [])) empty_world ''yt-dlp''
       = (Inr ''yt-dlp'', \<lparr>fs = Map.empty, effects = [ExecFile ''which'' [''yt-dlp'']]\<rparr>)
   \<and> ensureBinary (example_env ''linux'' None (Response 200 []))
         \<lparr>fs = Map.empty, effects = [ExecFile ''which'' [''yt-dlp'']]\<rparr> ''ffmpeg''
       = (Inr ''ffmpeg'',
          \<lparr>fs = Map.empty,
           effects = [ExecFile ''which'' [''yt-dlp''], ExecFile ''which'' [''ffmpeg'']]\<rparr>)
   \<and> (\<exists>r. fst (download (example_env ''linux'' None (Response 200 [])) empty_world
            (Some ''https://example/video'') no_options
            [YtdlpClose (Some 1), FfmpegStdoutData [73, 68, 51], FfmpegClose (Some 0)])
         = Resolved r)
   \<and> fst (download (example_env ''linux'' None (Response 200 [])) empty_world
            (Some ''https://example/video'') no_options
            [YtdlpClose (Some 0), FfmpegClose (Some 1)])
       = Rejected (Error ''ffmpeg exited with code 1'')
   \<and> fst (download (example_env ''linux'' None (Response 200 [])) empty_world
            (Some ''https://example/video'') no_options [YtdlpClose (Some 1)])
       = Pending
   \<and> ConsoleError [Str (warning_sign @ '' [yt-dlp] exited with code''), Code (Some 1)]
       \<in> set (effects (snd (download (example_env ''linux'' None (Response 200 [])) empty_world
            (Some ''https://example/video'') no_options [YtdlpClose (Some 1)])))"
proof -
  let ?env = "example_env ''linux'' None (Response 200 [])"
  have s: "show_code (Some 1) = ''1''"
    by (simp add: show_code_def show_int_def show_nat.simps digit_def)
  show ?thesis
    using example_spawn s
      download_succeeds_iff_ffmpeg_exits_0 [of ?env empty_world "Some ''https://example/video''"
        no_options "[YtdlpClose (Some 1), FfmpegStdoutData [73, 68, 51], FfmpegClose (Some 0)]"
        "''yt-dlp''" "\<lparr>fs = Map.empty, effects = [ExecFile ''which'' [''yt-dlp'']]\<rparr>"
        "''ffmpeg''"
        "\<lparr>fs = Map.empty,
           effects = [ExecFile ''which'' [''yt-dlp''], ExecFile ''which'' [''ffmpeg'']]\<rparr>"]
      download_succeeds_iff_ffmpeg_exits_0 [of ?env empty_world "Some ''https://example/video''"
        no_options "[YtdlpClose (Some 0), FfmpegClose (Some 1)]"
        "''yt-dlp''" "\<lparr>fs = Map.empty, effects = [ExecFile ''which'' [''yt-dlp'']]\<rparr>"
        "''ffmpeg''"
        "\<lparr>fs = Map.empty,
           effects = [ExecFile ''which'' [''yt-dlp''], ExecFile ''which'' [''ffmpeg'']]\<rparr>"]
      download_succeeds_iff_ffmpeg_exits_0 [of ?env empty_world "Some ''https://example/video''"
        no_options "[YtdlpClose (Some 1)]"
        "''yt-dlp''" "\<lparr>fs = Map.empty, effects = [ExecFile ''which'' [''yt-dlp'']]\<rparr>"
        "''ffmpeg''"
        "\<lparr>fs = Map.empty,
           effects = [ExecFile ''which'' [''yt-dlp''], ExecFile ''which'' [''ffmpeg'']]\<rparr>"]
    by simp
qed

text \<open>
  Claim C3. The downloader is spawned with \<open>-f\<close> and the resolved quality, in any mode
  other than audio followed by \<open>--merge-output-format\<close> and the resolved format; then
  \<open>--quiet\<close>, \<open>--no-warnings\<close>, \<open>-o\<close> with the output target and the URL; then the
  caller's extra arguments as they were given.
\<close>

theorem download_ytdlp_arguments:
  assumes "\<not> falsy url"
    and "ensureBinary env w ''yt-dlp'' = (Inr y, w1)"
    and "ensureBinary env w1 ''ffmpeg'' = (Inr f, w2)"
  shows "\<exists>ffArgs.
           effects (snd (download env w url options evs))
             = effects w2
               @ [Spawn y
                    ((if download_mode options = ''audio''
                      then [''-f'', download_quality options]
                      else [''-f'', download_quality options,
                            ''--merge-output-format'', download_format options])
                     @ [''--quiet'', ''--no-warnings'',
                        ''-o'', (if falsy (output options) then ''-'' else the (output options)),
                        the url]
                     @ (case ytdlpArgs options of None \<Rightarrow> [] | Some extra \<Rightarrow> extra)),
                  Spawn f ffArgs]
               @ console (run_events (falsy (output options)) evs)"
  by (simp add: download_effects [OF assms] build_ytdlpArgs_def push_extra_append)

theorem download_ytdlp_arguments_witness:
  "\<not> falsy (Some ''https://example/video'')
   \<and> (\<exists>ffArgs.
        effects (snd (download (example_env ''linux'' None (Response 200 [])) empty_world
                        (Some ''https://example/video'') video_options []))
          = [ExecFile ''which'' [''yt-dlp''], ExecFile ''which'' [''ffmpeg''],
             Spawn ''yt-dlp'' [''-f'', ''best'', ''--merge-output-format'', ''mp4'',
                               ''--quiet'', ''--no-warnings'', ''-o'', ''/tmp/out.mp4'',
                               ''https://example/video'', ''--no-playlist''],
             Spawn ''ffmpeg'' ffArgs])
   \<and> (\<exists>ffArgs.
        effects (snd (download (example_env ''linux'' None (Response 200 [])) empty_world
                        (Some ''https://example/video'') no_options []))
          = [ExecFile ''which'' [''yt-dlp''], ExecFile ''which'' [''ffmpeg''],
             Spawn ''yt-dlp'' [''-f'', ''0'', ''--quiet'', ''--no-warnings'', ''-o'', ''-'',
                               ''https://example/video''],
             Spawn ''ffmpeg'' ffArgs])"
  using example_spawn(1)
    download_ytdlp_arguments [OF example_spawn, of "Response 200 []" video_options "[]"]
    download_ytdlp_arguments [OF example_spawn, of "Response 200 []" no_options "[]"]
  by (simp add: video_options_def no_options_def download_mode_def download_format_def
      download_quality_def falsy_def run_events_def)

text \<open>
  Claim C4. The transcoder is spawned with \<open>-i pipe:0\<close>, then \<open>-vn\<close> in audio mode and
  \<open>-c copy\<close> in any other mode, then \<open>-f\<close> with the resolved format and \<open>pipe:1\<close>; the
  caller's extra arguments follow. The third argument is \<open>-vn\<close> exactly in audio mode.
\<close>

theorem download_ffmpeg_arguments:
  assumes "\<not> falsy url"
    and "ensureBinary env w ''yt-dlp'' = (Inr y, w1)"
    and "ensureBinary env w1 ''ffmpeg'' = (Inr f, w2)"
  shows "\<exists>ytArgs builtin.
           effects (snd (download env w url options evs))
             = effects w2
               @ [Spawn y ytArgs,
                  Spawn f (builtin
                           @ (case ffmpegArgs options of None \<Rightarrow> [] | Some extra \<Rightarrow> extra))]
               @ console (run_events (falsy (output options)) evs)
           \<and> builtin
               = (if download_mode options = ''audio''
                  then [''-i'', ''pipe:0'', ''-vn'', ''-f'', download_format options, ''pipe:1'']
                  else [''-i'', ''pipe:0'', ''-c'', ''copy'', ''-f'', download_format options,
                        ''pipe:1''])
           \<and> (builtin ! 2 = ''-vn'' \<longleftrightarrow> download_mode options = ''audio'')
           \<and> (builtin ! 2 = ''-c'' \<and> builtin ! 3 = ''copy''
                \<longleftrightarrow> download_mode options \<noteq> ''audio'')"
  by (simp add: download_effects [OF assms] build_ffmpegArgs_def push_extra_append)

theorem download_ffmpeg_arguments_witness:
  "\<not> falsy (Some ''https://example/video'')
   \<and> (\<exists>ytArgs.
        effects (snd (download (example_env ''linux'' None (Response 200 [])) empty_world
                        (Some ''https://example/video'') video_options []))
          = [ExecFile ''which'' [''yt-dlp''], ExecFile ''which'' [''ffmpeg''],
             Spawn ''yt-dlp'' ytArgs,
             Spawn ''ffmpeg'' [''-i'', ''pipe:0'', ''-c'', ''copy'', ''-f'', ''mp4'', ''pipe:1'',
                               ''-y'']])
   \<and> (\<exists>ytArgs.
        effects (snd (download (example_env ''linux'' None (Response 200 [])) empty_world
                        (Some ''https://example/video'') no_options []))
          = [ExecFile ''which'' [''yt-dlp''], ExecFile ''which'' [''ffmpeg''],
             Spawn ''yt-dlp'' ytArgs,
             Spawn ''ffmpeg'' [''-i'', ''pipe:0'', ''-vn'', ''-f'', ''mp3'', ''pipe:1'']])"
  using example_spawn(1)
    download_ffmpeg_arguments [OF example_spawn, of "Response 200 []" video_options "[]"]
    download_ffmpeg_arguments [OF example_spawn, of "Response 200 []" no_options "[]"]
  by (simp add: video_options_def no_options_def download_mode_def download_format_def
      download_quality_def falsy_def run_events_def)

text \<open>
  Claim C5, as the code has it. On success: when \<open>options.output\<close> is omitted or empty the
  downloader's output target is \<open>-\<close> and the result is the buffer of all chunks seen on the
  transcoder's standard output before its \<open>close\<close>, in order of arrival, so its length is the
  sum of their lengths (and of all chunks, when none arrives after \<open>close\<close>); the buffer may
  be empty. When \<open>options.output\<close> is a non-empty path the target is that path and the result
  is void. The claim as stated fails on both counts: a transcoder that exits with 0 and has
  written nothing yields the empty buffer, and an empty \<open>output\<close> yields a buffer.
\<close>

theorem download_result:
  assumes "\<not> falsy url"
    and "ensureBinary env w ''yt-dlp'' = (Inr y, w1)"
    and "ensureBinary env w1 ''ffmpeg'' = (Inr f, w2)"
    and "fst (download env w url options evs) = Resolved r"
  shows
    "(falsy (output options) \<longrightarrow>
        r = Buffer (concat (stdout_before_close evs))
        \<and> (\<exists>pre post ffArgs.
              effects (snd (download env w url options evs))
                = effects w2 @ [Spawn y (pre @ [''-o'', ''-'', the url] @ post), Spawn f ffArgs]
                  @ console (run_events True evs)
              \<and> pre = (if download_mode options = ''audio''
                        then [''-f'', download_quality options]
                        else [''-f'', download_quality options,
                              ''--merge-output-format'', download_format options])
                       @ [''--quiet'', ''--no-warnings'']
              \<and> post = (case ytdlpArgs options of None \<Rightarrow> [] | Some extra \<Rightarrow> extra)))
     \<and> (\<not> falsy (output options) \<longrightarrow>
        r = Void
        \<and> (\<exists>pre post ffArgs.
              effects (snd (download env w url options evs))
                = effects w2
                  @ [Spawn y (pre @ [''-o'', the (output options), the url] @ post),
                     Spawn f ffArgs]
                  @ console (run_events False evs)
              \<and> pre = (if download_mode options = ''audio''
                        then [''-f'', download_quality options]
                        else [''-f'', download_quality options,
                              ''--merge-output-format'', download_format options])
                       @ [''--quiet'', ''--no-warnings'']
              \<and> post = (case ytdlpArgs options of None \<Rightarrow> [] | Some extra \<Rightarrow> extra)))
     \<and> (\<forall>buf. r = Buffer buf \<longrightarrow>
          length buf = sum_list (map length (stdout_before_close evs))
          \<and> (stdout_chunks (after_close evs) = [] \<longrightarrow>
               buf = concat (stdout_chunks evs)
               \<and> length buf = sum_list (map length (stdout_chunks evs))))
     \<and> first_close evs = Some (Some 0)"
proof -
  have out: "promise (run_events (falsy (output options)) evs) = Resolved r"
    using assms(4) by (simp add: download_spawned [OF assms(1-3)] fst_run_pipeline)
  have fc: "first_close evs = Some (Some 0)"
    using out by (auto simp: promise_run_events split: option.splits if_splits)
  have eff: "effects (snd (download env w url options evs))
           = effects w2
             @ [Spawn y (build_ytdlpArgs (download_mode options) (download_format options)
                  (download_quality options)
                  (if falsy (output options) then ''-'' else the (output options)) (the url)
                  (ytdlpArgs options)),
                Spawn f (build_ffmpegArgs (download_mode options) (download_format options)
                  (ffmpegArgs options))]
             @ console (run_events (falsy (output options)) evs)"
    by (rule download_effects [OF assms(1-3)])
  have buf: "r = Buffer (concat (stdout_before_close evs))" if "falsy (output options)"
    using out that by (simp add: promise_run_events fc)
  have void: "r = Void" if "\<not> falsy (output options)"
    using out that by (simp add: promise_run_events fc)
  have 1: "falsy (output options) \<longrightarrow>
        r = Buffer (concat (stdout_before_close evs))
        \<and> (\<exists>pre post ffArgs.
              effects (snd (download env w url options evs))
                = effects w2 @ [Spawn y (pre @ [''-o'', ''-'', the url] @ post), Spawn f ffArgs]
                  @ console (run_events True evs)
              \<and> pre = (if download_mode options = ''audio''
                        then [''-f'', download_quality options]
                        else [''-f'', download_quality options,
                              ''--merge-output-format'', download_format options])
                       @ [''--quiet'', ''--no-warnings'']
              \<and> post = (case ytdlpArgs options of None \<Rightarrow> [] | Some extra \<Rightarrow> extra))"
    by (simp add: buf eff build_ytdlpArgs_def push_extra_append)
  have 2: "\<not> falsy (output options) \<longrightarrow>
        r = Void
        \<and> (\<exists>pre post ffArgs.
              effects (snd (download env w url options evs))
                = effects w2
                  @ [Spawn y (pre @ [''-o'', the (output options), the url] @ post),
                     Spawn f ffArgs]
                  @ console (run_events False evs)
              \<and> pre = (if download_mode options = ''audio''
                        then [''-f'', download_quality options]
                        else [''-f'', download_quality options,
                              ''--merge-output-format'', download_format options])
                       @ [''--quiet'', ''--no-warnings'']
              \<and> post = (case ytdlpArgs options of None \<Rightarrow> [] | Some extra \<Rightarrow> extra))"
    by (simp add: void eff build_ytdlpArgs_def push_extra_append)
  have 3: "\<forall>buf. r = Buffer buf \<longrightarrow>
          length buf = sum_list (map length (stdout_before_close evs))
          \<and> (stdout_chunks (after_close evs) = [] \<longrightarrow>
               buf = concat (stdout_chunks evs)
               \<and> length buf = sum_list (map length (stdout_chunks evs)))"
  proof (intro allI impI)
    fix b assume rb: "r = Buffer b"
    then have "falsy (output options)" using void by auto
    then have b: "b = concat (stdout_before_close evs)" using buf rb by simp
    show "length b = sum_list (map length (stdout_before_close evs))
          \<and> (stdout_chunks (after_close evs) = [] \<longrightarrow>
               b = concat (stdout_chunks evs)
               \<and> length b = sum_list (map length (stdout_chunks evs)))"
      using stdout_chunks_split [of evs] by (simp add: b length_concat)
  qed
  from 1 2 3 fc show ?thesis by blast
qed

theorem download_result_witness:
  "\<not> falsy (Some ''https://example/video'')
   \<and> fst (download (example_env ''linux'' None (Response 200 [])) empty_world
            (Some ''https://example/video'') no_options
            [FfmpegStdoutData [73, 68], FfmpegStdoutData [51], FfmpegClose (Some 0)])
       = Resolved (Buffer [73, 68, 51])
   \<and> length [73 :: 8 word, 68, 51]
       = sum_list (map length (stdout_chunks
           [FfmpegStdoutData [73, 68], FfmpegStdoutData [51], FfmpegClose (Some 0)]))
   \<and> fst (download (example_env ''linux'' None (Response 200 [])) empty_world
            (Some ''https://example/video'') video_options [FfmpegClose (Some 0)])
       = Resolved Void
   \<and> \<not> falsy (output video_options)"
proof -
  let ?env = "example_env ''linux'' None (Response 200 [])"
  let ?evs = "[FfmpegStdoutData [73, 68], FfmpegStdoutData [51], FfmpegClose (Some 0)]"
  have a: "fst (download ?env empty_world (Some ''https://example/video'') no_options ?evs)
             = Resolved (Buffer [73, 68, 51])"
    by (simp add: example_download_outcome promise_run_events no_options_def falsy_def)
  have b: "fst (download ?env empty_world (Some ''https://example/video'') video_options
                  [FfmpegClose (Some 0)]) = Resolved Void"
    by (simp add: example_download_outcome promise_run_events video_options_def falsy_def)
  show ?thesis
    using a b example_spawn(1)
      download_result [OF example_spawn a]
      download_result [OF example_spawn b]
    by (simp add: video_options_def falsy_def)
qed

text \<open>The counterexample to claim C5 as stated.\<close>

theorem download_result_counterexample:
  "fst (download (example_env ''linux'' None (Response 200 [])) empty_world
          (Some ''https://example/video'') no_options [FfmpegClose (Some 0)])
     = Resolved (Buffer [])
   \<and> fst (download (example_env ''linux'' None (Response 200 [])) empty_world
            (Some ''https://example/video'') (no_options\<lparr>output := Some []\<rparr>)
            [FfmpegStdoutData [73, 68, 51], FfmpegClose (Some 0)])
     = Resolved (Buffer [73, 68, 51])"
  by (simp add: example_download_outcome promise_run_events no_options_def falsy_def)

text \<open>
  Claim C10. A missing or empty URL rejects \<open>download\<close> with \<open>No URL provided for download\<close>
  and leaves the world as it was: nothing is resolved, fetched, written or spawned before.
\<close>

theorem download_rejects_missing_url:
  "falsy url \<Longrightarrow>
     download env w url options evs = (Rejected (Error ''No URL provided for download''), w)"
  by (simp add: download_def)

theorem download_rejects_missing_url_witness:
  "falsy (Some []) \<and> falsy None
   \<and> download (example_env ''linux'' None (Response 200 [])) empty_world (Some []) no_options
         [FfmpegClose (Some 0)]
       = (Rejected (Error ''No URL provided for download''), empty_world)
   \<and> download (example_env ''linux'' None (Response 200 [])) empty_world None no_options
         [FfmpegClose (Some 0)]
       = (Rejected (Error ''No URL provided for download''), empty_world)"
proof -
  have a: "falsy (Some [])" and b: "falsy None"
    by (simp_all add: falsy_def)
  show ?thesis
    using a b download_rejects_missing_url [OF a] download_rejects_missing_url [OF b]
    by simp
qed

text \<open>
  Claim C2. The defaults at the entry of \<open>download\<close>: the mode is \<open>audio\<close> when absent; the
  format is \<open>mp3\<close> in audio mode and \<open>mp4\<close> in video mode when absent; the quality is \<open>0\<close>
  in audio mode and \<open>best\<close> in video mode when absent; a value that is given is used as it is.
\<close>

theorem download_defaults:
  "(mode options = None \<longrightarrow> download_mode options = ''audio'')
   \<and> (\<forall>m. mode options = Some m \<longrightarrow> download_mode options = m)
   \<and> (format options = None \<and> download_mode options = ''audio''
        \<longrightarrow> download_format options = ''mp3'')
   \<and> (format options = None \<and> download_mode options = ''video''
        \<longrightarrow> download_format options = ''mp4'')
   \<and> (\<forall>f. format options = Some f \<longrightarrow> download_format options = f)
   \<and> (quality options = None \<and> download_mode options = ''audio''
        \<longrightarrow> download_quality options = ''0'')
   \<and> (quality options = None \<and> download_mode options = ''video''
        \<longrightarrow> download_quality options = ''best'')
   \<and> (\<forall>q. quality options = Some q \<longrightarrow> download_quality options = q)"
  by (simp add: download_mode_def download_format_def download_quality_def)

theorem download_defaults_witness:
  "mode no_options = None \<and> format no_options = None \<and> quality no_options = None
   \<and> download_mode no_options = ''audio''
   \<and> download_format no_options = ''mp3''
   \<and> download_quality no_options = ''0''
   \<and> mode video_options = Some ''video''
   \<and> download_mode video_options = ''video''
   \<and> download_format video_options = ''mp4''
   \<and> download_quality video_options = ''best''
   \<and> download_format (no_options\<lparr>format := Some ''flac''\<rparr>) = ''flac''
   \<and> download_quality (no_options\<lparr>quality := Some ''320k''\<rparr>) = ''320k''"
  using download_defaults [of no_options] download_defaults [of video_options]
    download_defaults [of "no_options\<lparr>format := Some ''flac''\<rparr>"]
    download_defaults [of "no_options\<lparr>quality := Some ''320k''\<rparr>"]
  by (simp add: no_options_def video_options_def)

section \<open>What the resolver returns, and the temporary cookie file\<close>

lemma fetch_binary_file:
  assumes "fst (fetch_binary env w url local) = Inr path"
    and "fs w local = None"
  shows "path = local
         \<and> (\<exists>f. fs (snd (fetch_binary env w url local)) local = Some f \<and> fmode f = 493)"
  using assms
  by (auto simp: fetch_binary_result fetch_binary_world downloadFile_fs
      split: http_result.splits if_splits)

lemma slash_join_absolute:
  "posix_absolute x \<Longrightarrow> posix_absolute (slash_join (x # xs))"
  by (cases xs; cases x) (simp_all add: posix_absolute_def)

lemma example_download_ffmpeg:
  "fst (ensureBinary (example_env ''linux'' (Some err) (Response 200 body)) empty_world ''ffmpeg'')
     = Inr ''/work/bin/ffmpeg''"
proof -
  let ?env = "example_env ''linux'' (Some err) (Response 200 body)"
  have l: "locate ?env empty_world ''ffmpeg'' = (Some err, fs empty_world)"
    by (rule example_locate)
  have c: "cache_path ?env ''ffmpeg'' = ''/work/bin/ffmpeg''"
    by (rule example_cache_path_linux)
  have g: "https_get ?env url = Response 200 body" for url
    by (simp add: example_env_def)
  have n: "''ffmpeg'' = ''yt-dlp'' \<or> ''ffmpeg'' = ''ffmpeg''" by simp
  have h1: "fst (locate ?env empty_world ''ffmpeg'') \<noteq> None"
    by (simp add: l)
  have e: "fs empty_world path = None" for path
    by (simp add: empty_world_def)
  have h2: "snd (locate ?env empty_world ''ffmpeg'') (cache_path ?env ''ffmpeg'') = None"
    by (simp add: l e)
  show ?thesis
    by (simp add: ensureBinary_missing [OF n h1 h2] fetch_binary_result g c)
qed

lemma tools_found:
  "ensureBinary (tools_env failed) w name
     = (Inr name, w\<lparr>effects := effects w @ [ExecFile ''which'' [name]]\<rparr>)"
proof -
  have l: "locate (tools_env failed) w name = (None, fs w)"
    by (simp add: locate_def locate_cmd_def tools_env_def)
  have e: "exe_of (tools_env failed) name = name"
    by (simp add: exe_of_def tools_env_def)
  have c: "locate_cmd (tools_env failed) = ''which''"
    by (simp add: locate_cmd_def tools_env_def)
  have "fst (locate (tools_env failed) w name) = None"
    by (simp add: l)
  from ensureBinary_located [OF this] show ?thesis
    by (simp add: l e c)
qed

text \<open>
  A tool found by the locate command is returned by its bare name, to be looked up again on
  the search path when it is spawned; the doc comment of \<open>ensureBinary\<close> promises an absolute
  path.
\<close>

lemma ensureBinary_system_path_name:
  "fst (ensureBinary (example_env ''linux'' None resp) empty_world ''yt-dlp'') = Inr ''yt-dlp''
   \<and> \<not> posix_absolute ''yt-dlp''"
  by (simp add: example_tools_found posix_absolute_def)

text \<open>
  Claim C9, as the code has it. When a supported tool is not found by the locate command and
  the resolution succeeds, the path returned is \<open>join(cwd, "bin", <exe>)\<close>: it is absolute
  whenever the working directory is and \<open>path.join\<close> keeps an absolute first segment
  absolute. When the file was not in the cache it has just been created by the fetcher with
  mode 0o755, which makes it executable by its owner. When the file was in the cache it is
  returned as it was found: only its existence is checked, and the file system is left
  untouched. The claim as stated fails there: a cached file that is not executable is returned.
\<close>

theorem ensureBinary_cache_path:
  assumes "name = ''yt-dlp'' \<or> name = ''ffmpeg''"
    and "fst (locate env w name) \<noteq> None"
    and "fst (ensureBinary env w name) = Inr path"
  shows
    "path = join env [cwd env, ''bin'', exe_of env name]
     \<and> (absolute (cwd env) \<and> (\<forall>x xs. absolute x \<longrightarrow> absolute (join env (x # xs)))
          \<longrightarrow> absolute path)
     \<and> (snd (locate env w name) path = None \<longrightarrow>
          (\<exists>f. fs (snd (ensureBinary env w name)) path = Some f
               \<and> fmode f = 493 \<and> owner_executable f))
     \<and> (snd (locate env w name) path \<noteq> None \<longrightarrow>
          fs (snd (ensureBinary env w name)) = snd (locate env w name))"
proof (cases "snd (locate env w name) (cache_path env name) = None")
  case True
  let ?w = "w\<lparr>fs := snd (locate env w name),
                effects := effects w @ [ExecFile (locate_cmd env) [exe_of env name],
                 ConsoleLog (''Downloading '' @ name @ '' '' @ arrow @ '' '' @ cache_path env name)]\<rparr>"
  have eq: "ensureBinary env w name
              = fetch_binary env ?w (provision_url env name) (cache_path env name)"
    by (rule ensureBinary_missing [OF assms(1,2) True])
  have r: "fst (fetch_binary env ?w (provision_url env name) (cache_path env name)) = Inr path"
    using assms(3) by (simp add: eq)
  have n: "fs ?w (cache_path env name) = None"
    using True by simp
  from fetch_binary_file [OF r n]
  have p: "path = cache_path env name"
    and f: "\<exists>f. fs (snd (ensureBinary env w name)) (cache_path env name) = Some f \<and> fmode f = 493"
    by (simp_all add: eq)
  from f obtain g where g: "fs (snd (ensureBinary env w name)) (cache_path env name) = Some g"
    "fmode g = 493" by blast
  have x: "owner_executable g"
    by (simp add: owner_executable_def g(2))
  show ?thesis
    using True p g x by (auto simp: cache_path_def)
next
  case False
  have eq: "ensureBinary env w name =
           (Inr (cache_path env name),
            w\<lparr>fs := snd (locate env w name),
              effects := effects w @ [ExecFile (locate_cmd env) [exe_of env name]]\<rparr>)"
    by (rule ensureBinary_cached [OF assms(2) False])
  have p: "path = cache_path env name"
    using assms(3) by (simp add: eq)
  show ?thesis
    using False p by (auto simp: eq cache_path_def)
qed

theorem ensureBinary_cache_path_witness:
  "(''ffmpeg'' = ''yt-dlp'' \<or> ''ffmpeg'' = ''ffmpeg'')
   \<and> fst (locate (example_env ''linux'' (Some (Error ''Command failed'')) (Response 200 [7]))
            empty_world ''ffmpeg'') \<noteq> None
   \<and> fst (ensureBinary (example_env ''linux'' (Some (Error ''Command failed'')) (Response 200 [7]))
            empty_world ''ffmpeg'') = Inr ''/work/bin/ffmpeg''
   \<and> posix_absolute ''/work/bin/ffmpeg''
   \<and> (\<exists>f. fs (snd (ensureBinary
                (example_env ''linux'' (Some (Error ''Command failed'')) (Response 200 [7]))
                empty_world ''ffmpeg'')) ''/work/bin/ffmpeg'' = Some f
           \<and> fmode f = 493 \<and> owner_executable f)"
proof -
  let ?env = "example_env ''linux'' (Some (Error ''Command failed'')) (Response 200 [7])"
  have n: "''ffmpeg'' = ''yt-dlp'' \<or> ''ffmpeg'' = ''ffmpeg''" by simp
  have l: "locate ?env empty_world ''ffmpeg'' = (Some (Error ''Command failed''), fs empty_world)"
    by (rule example_locate)
  have h: "fst (locate ?env empty_world ''ffmpeg'') \<noteq> None"
    by (simp add: l)
  have r: "fst (ensureBinary ?env empty_world ''ffmpeg'') = Inr ''/work/bin/ffmpeg''"
    by (rule example_download_ffmpeg)
  have j: "join ?env = slash_join" and c: "cwd ?env = ''/work''"
    by (simp_all add: example_env_def)
  have a: "posix_absolute (cwd ?env)
           \<and> (\<forall>x xs. posix_absolute x \<longrightarrow> posix_absolute (join ?env (x # xs)))"
    by (simp add: j c slash_join_absolute) (simp add: posix_absolute_def)
  have e0: "fs empty_world ''/work/bin/ffmpeg'' = None"
    by (simp add: empty_world_def)
  have e: "snd (locate ?env empty_world ''ffmpeg'') ''/work/bin/ffmpeg'' = None"
    by (simp add: l e0)
  note t = ensureBinary_cache_path [OF n h r, of posix_absolute]
  from t a have p: "posix_absolute ''/work/bin/ffmpeg''"
    by blast
  from t e have f: "\<exists>f. fs (snd (ensureBinary ?env empty_world ''ffmpeg'')) ''/work/bin/ffmpeg''
                        = Some f \<and> fmode f = 493 \<and> owner_executable f"
    by blast
  from n h r p f show ?thesis
    by blast
qed

text \<open>The counterexample to claim C9 as stated: a cached file with mode 0o644 is returned.\<close>

theorem ensureBinary_cache_path_counterexample:
  "fst (ensureBinary (example_env ''linux'' (Some (Error ''Command failed'')) (Response 200 [7]))
          cached_world ''yt-dlp'') = Inr ''/work/bin/yt-dlp''
   \<and> fs (snd (ensureBinary (example_env ''linux'' (Some (Error ''Command failed'')) (Response 200 [7]))
          cached_world ''yt-dlp'')) ''/work/bin/yt-dlp''
       = Some \<lparr>content = [35, 33], fmode = 420\<rparr>
   \<and> \<not> owner_executable \<lparr>content = [35, 33], fmode = 420\<rparr>"
proof -
  let ?env = "example_env ''linux'' (Some (Error ''Command failed'')) (Response 200 [7])"
  have l: "locate ?env cached_world ''yt-dlp'' = (Some (Error ''Command failed''), fs cached_world)"
    by (rule example_locate)
  have c: "cache_path ?env ''yt-dlp'' = ''/work/bin/yt-dlp''"
    by (rule example_cache_path_linux)
  have f: "fs cached_world ''/work/bin/yt-dlp'' = Some \<lparr>content = [35, 33], fmode = 420\<rparr>"
    by (simp add: cached_world_def)
  have h1: "fst (locate ?env cached_world ''yt-dlp'') \<noteq> None"
    by (simp add: l)
  have h2: "snd (locate ?env cached_world ''yt-dlp'') (cache_path ?env ''yt-dlp'') \<noteq> None"
    by (simp add: l c f)
  have "ensureBinary ?env cached_world ''yt-dlp'' =
           (Inr (cache_path ?env ''yt-dlp''),
            cached_world\<lparr>fs := snd (locate ?env cached_world ''yt-dlp''),
              effects := effects cached_world @ [ExecFile (locate_cmd ?env) [exe_of ?env ''yt-dlp'']]\<rparr>)"
    by (rule ensureBinary_cached [OF h1 h2])
  then show ?thesis
    by (simp add: l c f owner_executable_def)
qed

text \<open>
  Claim C8 asks that a temporary file holding the caller's cookie data is deleted before the
  operation completes, on success and on failure. The temp-file variant of \<open>download\<close> writes
  that file and never deletes it: after a call with a raw cookie string and an output path the
  file is still in the temporary directory with the cookie data, both when the downloader
  exits with 0 and when it fails.
\<close>

theorem download_tempfile_leaves_cookie_file:
  "fst (download_tempfile (tools_env None) empty_world ''https://example/video'' cookie_options)
     = Resolved Void
   \<and> fs (snd (download_tempfile (tools_env None) empty_world ''https://example/video''
                cookie_options)) ''/tmp/easy-dl-cookies-1700000000000.txt''
       = Some \<lparr>content = map of_char ''SID=abc'', fmode = 438\<rparr>
   \<and> effects (snd (download_tempfile (tools_env None) empty_world ''https://example/video''
                     cookie_options))
       = [ExecFile ''which'' [''yt-dlp''], ExecFile ''which'' [''ffmpeg''],
          WriteFile ''/tmp/easy-dl-cookies-1700000000000.txt'',
          ExecFile ''yt-dlp''
            [''-x'', ''--audio-format'', ''mp3'', ''--audio-quality'', ''0'',
             ''--cookies'', ''/tmp/easy-dl-cookies-1700000000000.txt'',
             ''--quiet'', ''--no-warnings'', ''--ffmpeg-location'', ''ffmpeg'',
             ''-o'', ''/music/out.mp3'', ''https://example/video'']]
   \<and> fst (download_tempfile (tools_env (Some (Error ''Command failed''))) empty_world
            ''https://example/video'' cookie_options)
       = Rejected (Error ''Command failed'')
   \<and> fs (snd (download_tempfile (tools_env (Some (Error ''Command failed''))) empty_world
                ''https://example/video'' cookie_options))
         ''/tmp/easy-dl-cookies-1700000000000.txt''
       = Some \<lparr>content = map of_char ''SID=abc'', fmode = 438\<rparr>"
proof -
  have s: "show_nat 1700000000000 = ''1700000000000''"
    by (simp add: show_nat.simps digit_def)
  have t: "join (tools_env failed) = slash_join" "tmpdir (tools_env failed) = ''/tmp''"
    "now (tools_env failed) = 1700000000000"
    "execFile (tools_env failed) ''yt-dlp'' args files = (failed, files)" for failed args files
    by (simp_all add: tools_env_def)
  show ?thesis
    by (simp add: download_tempfile_def tools_found Let_def add_cookies_def cookie_options_def
        falsy_def existsSync_def empty_world_def writeFileSync_def emit_def t s
        download_mode_def download_format_def download_quality_def)
qed

end
